theory Spec2Isabelle
  imports Complex_Main
begin

section \<open>The cart store of \<open>src/js/cart.js\<close>\<close>

text \<open>
  The cart store keeps one JSON array of line items under one key of the browser's
  \<open>localStorage\<close>. Every operation reads the whole array with \<open>getCart\<close>, changes it in
  memory and writes it back with \<open>saveCart\<close>. This theory embeds the values the
  operations handle, the built-in functions they call, and the operations themselves,
  and states the properties of the repository's specification over them.
\<close>

subsection \<open>Values\<close>

text \<open>
  A JavaScript number is \<open>NaN\<close>, an infinity or a finite double. A finite double is given
  by the rational it stands for; the operations below round their results to doubles
  (\<open>round_double\<close>), so they never leave the doubles. The negative zero is taken for 0:
  no operation of the cart tells the two apart. A string is a list of characters, which
  stand for the code units below U+0100. The values are the data values: an object is a
  plain object whose own properties are values again, never functions.
\<close>

datatype number = NaN | PInf | NInf | Fin rat

text \<open>
  An object is the list of its own properties in enumeration order; an array is the list
  of its elements.
\<close>

datatype jsval =
    Undefined
  | Null
  | Bool bool
  | Num number
  | Str string
  | Arr "jsval list"
  | Obj "(string \<times> jsval) list"

datatype error = TypeError | SyntaxError | QuotaExceededError

subsection \<open>Built-in conversions and operators\<close>

text \<open>\<open>ToBoolean\<close>: what a condition, \<open>||\<close> and \<open>? :\<close> test.\<close>

fun truthy :: "jsval \<Rightarrow> bool" where
  "truthy Undefined = False"
| "truthy Null = False"
| "truthy (Bool b) = b"
| "truthy (Num NaN) = False"
| "truthy (Num (Fin r)) = (r \<noteq> 0)"
| "truthy (Num _) = True"
| "truthy (Str s) = (s \<noteq> [])"
| "truthy (Arr _) = True"
| "truthy (Obj _) = True"

text \<open>\<open>a || b\<close> on values.\<close>

definition js_or :: "jsval \<Rightarrow> jsval \<Rightarrow> jsval" where
  "js_or a b = (if truthy a then a else b)"

text \<open>
  \<open>a === b\<close>. \<open>NaN\<close> equals nothing. Two objects or arrays are equal only when they are
  the same object; an argument of an operation is never the same object as a part of
  the array that \<open>JSON.parse\<close> has just built, so the comparison is false on them.
\<close>

fun strict_eq :: "jsval \<Rightarrow> jsval \<Rightarrow> bool" where
  "strict_eq Undefined Undefined = True"
| "strict_eq Null Null = True"
| "strict_eq (Bool a) (Bool b) = (a = b)"
| "strict_eq (Num NaN) (Num _) = False"
| "strict_eq (Num _) (Num NaN) = False"
| "strict_eq (Num a) (Num b) = (a = b)"
| "strict_eq (Str a) (Str b) = (a = b)"
| "strict_eq _ _ = False"

subsection \<open>Doubles\<close>

text \<open>
  Rounding a rational to the nearest double, ties to the even significand: the unit in
  the last place is \<open>2 ^ (e - 52)\<close> where \<open>2 ^ e\<close> is the power of two at or below the
  magnitude, and \<open>e\<close> is at least -1022 (the subnormal range); a result of \<open>2 ^ 1024\<close> or
  more is an infinity.
\<close>

function bit_length :: "int \<Rightarrow> int" where
  "bit_length n = (if n \<le> 0 then 0 else 1 + bit_length (n div 2))"
  by pat_completeness auto
termination
  by (relation "measure nat") auto

declare bit_length.simps [simp del]

definition pow2 :: "int \<Rightarrow> rat" where
  "pow2 e = (if 0 \<le> e then of_int (2 ^ nat e) else 1 / of_int (2 ^ nat (- e)))"

definition floor_log2 :: "rat \<Rightarrow> int" where
  "floor_log2 a =
     (if 1 \<le> a then bit_length \<lfloor>a\<rfloor> - 1
      else - bit_length (\<lceil>1 / a\<rceil> - 1))"

definition round_half_even :: "rat \<Rightarrow> int" where
  "round_half_even q =
     (let f = \<lfloor>q\<rfloor>; d = q - of_int f
      in if d < 1 / 2 then f else if 1 / 2 < d then f + 1 else if even f then f else f + 1)"

definition round_double :: "rat \<Rightarrow> number" where
  "round_double r =
     (if r = 0 then Fin 0
      else
        (let a = \<bar>r\<bar>;
             ulp = pow2 (max (floor_log2 a) (- 1022) - 52);
             v = of_int (round_half_even (a / ulp)) * ulp
         in if pow2 1024 \<le> v then (if r < 0 then NInf else PInf)
            else Fin (if r < 0 then - v else v)))"

text \<open>Addition of numbers: the exact sum, rounded.\<close>

fun number_add :: "number \<Rightarrow> number \<Rightarrow> number" where
  "number_add NaN _ = NaN"
| "number_add _ NaN = NaN"
| "number_add PInf NInf = NaN"
| "number_add NInf PInf = NaN"
| "number_add PInf _ = PInf"
| "number_add _ PInf = PInf"
| "number_add NInf _ = NInf"
| "number_add _ NInf = NInf"
| "number_add (Fin a) (Fin b) = round_double (a + b)"

definition number_or :: "number \<Rightarrow> number \<Rightarrow> number" where
  \<comment> \<open>\<open>n || d\<close> on a number: 0 and \<open>NaN\<close> are the falsy numbers\<close>
  "number_or n d = (if truthy (Num n) then n else d)"

fun number_less :: "number \<Rightarrow> number \<Rightarrow> bool" where
  "number_less NaN _ = False"
| "number_less _ NaN = False"
| "number_less PInf _ = False"
| "number_less _ NInf = False"
| "number_less NInf _ = True"
| "number_less _ PInf = True"
| "number_less (Fin a) (Fin b) = (a < b)"

definition isNaN :: "number \<Rightarrow> bool" where
  "isNaN n = (n = NaN)"

subsection \<open>Numbers to strings\<close>

text \<open>The decimal digits of a whole number that is not negative.\<close>

definition digit_char :: "int \<Rightarrow> char" where
  "digit_char d = char_of (48 + d)"

function show_nat :: "int \<Rightarrow> string" where
  "show_nat n = (if n < 10 then [digit_char n] else show_nat (n div 10) @ [digit_char (n mod 10)])"
  by pat_completeness auto
termination
  by (relation "measure nat") auto

declare show_nat.simps [simp del]

definition power10 :: "int \<Rightarrow> rat" where
  "power10 e = (if 0 \<le> e then of_int (10 ^ nat e) else 1 / of_int (10 ^ nat (- e)))"

text \<open>The \<open>n\<close> with \<open>10 ^ (n - 1) \<le> a < 10 ^ n\<close>, for a positive \<open>a\<close>.\<close>

definition decimal_exponent :: "rat \<Rightarrow> int" where
  "decimal_exponent a =
     (if 1 \<le> a then int (length (show_nat \<lfloor>a\<rfloor>))
      else 1 - int (length (show_nat (\<lceil>1 / a\<rceil> - 1))))"

text \<open>
  \<open>Number::toString\<close> writes the shortest digits that read back as the same double:
  integers \<open>s\<close> of \<open>k\<close> digits and \<open>n\<close> with \<open>s * 10 ^ (n - k)\<close> rounding to the double,
  \<open>k\<close> as small as possible and then the value as close to the double as possible. For
  each \<open>k\<close> the candidates are the two \<open>k\<close>-digit values next to the double, and the
  power of ten above it.
\<close>

definition digit_candidates :: "rat \<Rightarrow> nat \<Rightarrow> (int \<times> int) list" where
  "digit_candidates a k =
     (let n0 = decimal_exponent a
      in filter
           (\<lambda>(s, n). 10 ^ (k - 1) \<le> s \<and> s < 10 ^ k \<and>
              round_double (of_int s * power10 (n - int k)) = Fin a)
           [(\<lfloor>a / power10 (n0 - int k)\<rfloor>, n0),
            (\<lfloor>a / power10 (n0 - int k)\<rfloor> + 1, n0),
            (10 ^ (k - 1), n0 + 1)])"

fun closest :: "rat \<Rightarrow> nat \<Rightarrow> (int \<times> int) \<Rightarrow> (int \<times> int) list \<Rightarrow> int \<times> int" where
  "closest a k best [] = best"
| "closest a k (s, n) ((s', n') # cs) =
     (let d = \<bar>of_int s * power10 (n - int k) - a\<bar>;
          d' = \<bar>of_int s' * power10 (n' - int k) - a\<bar>
      in if d' < d \<or> (d' = d \<and> even s' \<and> odd s) then closest a k (s', n') cs
         else closest a k (s, n) cs)"

fun shortest_from :: "rat \<Rightarrow> nat \<Rightarrow> nat \<Rightarrow> string \<times> int" where
  "shortest_from a k 0 =
     (show_nat \<lfloor>a / power10 (decimal_exponent a - int k)\<rfloor>, decimal_exponent a)"
| "shortest_from a k (Suc fuel) =
     (case digit_candidates a k of
        [] \<Rightarrow> shortest_from a (Suc k) fuel
      | c # cs \<Rightarrow> (case closest a k c cs of (s, n) \<Rightarrow> (show_nat s, n)))"

text \<open>A double has such digits with \<open>k\<close> at most 17.\<close>

definition shortest_digits :: "rat \<Rightarrow> string \<times> int" where
  "shortest_digits a = shortest_from a 1 17"

text \<open>
  The digits \<open>ds\<close> with the decimal point after the first \<open>n\<close> of them: positional for
  \<open>-6 < n \<le> 21\<close>, exponent notation otherwise.
\<close>

definition format_digits :: "string \<Rightarrow> int \<Rightarrow> string" where
  "format_digits ds n =
     (let k = int (length ds)
      in if k \<le> n \<and> n \<le> 21 then ds @ replicate (nat (n - k)) CHR ''0''
         else if 0 < n \<and> n \<le> 21 then take (nat n) ds @ CHR ''.'' # drop (nat n) ds
         else if - 6 < n \<and> n \<le> 0 then ''0.'' @ replicate (nat (- n)) CHR ''0'' @ ds
         else
           (let e = n - 1;
                es = (if e < 0 then CHR ''-'' else CHR ''+'') # show_nat \<bar>e\<bar>
            in if k = 1 then ds @ CHR ''e'' # es
               else take 1 ds @ CHR ''.'' # drop 1 ds @ CHR ''e'' # es))"

fun number_toString :: "number \<Rightarrow> string" where
  "number_toString NaN = ''NaN''"
| "number_toString PInf = ''Infinity''"
| "number_toString NInf = ''-Infinity''"
| "number_toString (Fin r) =
     (case round_double r of
        Fin v \<Rightarrow>
          if v = 0 then ''0''
          else (if v < 0 then ''-'' else []) @
               (case shortest_digits \<bar>v\<bar> of (ds, n) \<Rightarrow> format_digits ds n)
      | PInf \<Rightarrow> ''Infinity''
      | NInf \<Rightarrow> ''-Infinity''
      | NaN \<Rightarrow> ''NaN'')"

fun join_with :: "string \<Rightarrow> string list \<Rightarrow> string" where
  "join_with sep [] = []"
| "join_with sep [x] = x"
| "join_with sep (x # y # ys) = x @ sep @ join_with sep (y # ys)"

text \<open>
  \<open>String(v)\<close>. An array joins the strings of its elements with commas, \<open>null\<close> and
  \<open>undefined\<close> elements giving the empty string. A plain object gives \<open>[object Object]\<close>
  through the \<open>toString\<close> it inherits; when it has an own property \<open>toString\<close>, that is
  no function, the inherited \<open>valueOf\<close> returns the object itself, and the conversion
  throws a \<open>TypeError\<close>.
\<close>

fun ToString :: "jsval \<Rightarrow> error + string"
  and elem_strings :: "jsval list \<Rightarrow> error + string list" where
  "ToString Undefined = Inr ''undefined''"
| "ToString Null = Inr ''null''"
| "ToString (Bool b) = Inr (if b then ''true'' else ''false'')"
| "ToString (Num n) = Inr (number_toString n)"
| "ToString (Str s) = Inr s"
| "ToString (Arr xs) =
     (case elem_strings xs of Inl e \<Rightarrow> Inl e | Inr ss \<Rightarrow> Inr (join_with '','' ss))"
| "ToString (Obj kvs) =
     (if ''toString'' \<in> set (map fst kvs) then Inl TypeError else Inr ''[object Object]'')"
| "elem_strings [] = Inr []"
| "elem_strings (x # xs) =
     (case (if x = Undefined \<or> x = Null then Inr [] else ToString x) of
        Inl e \<Rightarrow> Inl e
      | Inr s \<Rightarrow> (case elem_strings xs of Inl e \<Rightarrow> Inl e | Inr ss \<Rightarrow> Inr (s # ss)))"

subsection \<open>Strings to numbers\<close>

text \<open>White space that \<open>parseInt\<close> and \<open>Number\<close> skip (the characters below U+0100).\<close>

definition is_space :: "char \<Rightarrow> bool" where
  "is_space c = (of_char c \<in> {9, 10, 11, 12, 13, 32, 160 :: nat})"

definition is_digit :: "char \<Rightarrow> bool" where
  "is_digit c = (48 \<le> (of_char c :: nat) \<and> (of_char c :: nat) \<le> 57)"

definition digit_val :: "char \<Rightarrow> int" where
  "digit_val c = of_char c - 48"

definition digits_val :: "string \<Rightarrow> int" where
  "digits_val ds = foldl (\<lambda>acc c. 10 * acc + digit_val c) 0 ds"

text \<open>
  \<open>parseInt(s, 10)\<close> on a string: leading white space, an optional sign, then the longest
  run of decimal digits; \<open>NaN\<close> when there is no digit. The integer is rounded to a
  double, so a long run of digits gives an infinity.
\<close>

definition parseInt_string :: "string \<Rightarrow> number" where
  "parseInt_string s =
     (let t = dropWhile is_space s;
          neg = (case t of c # _ \<Rightarrow> c = CHR ''-'' | [] \<Rightarrow> False);
          u = (case t of c # r \<Rightarrow> if c = CHR ''-'' \<or> c = CHR ''+'' then r else t | [] \<Rightarrow> t);
          ds = takeWhile is_digit u
      in if ds = [] then NaN
         else round_double (if neg then - of_int (digits_val ds) else of_int (digits_val ds)))"

text \<open>\<open>parseInt(v, 10)\<close>: the argument is converted to a string first.\<close>

definition parseInt :: "jsval \<Rightarrow> error + number" where
  "parseInt v = (case ToString v of Inl e \<Rightarrow> Inl e | Inr s \<Rightarrow> Inr (parseInt_string s))"

text \<open>
  \<open>Number(s)\<close> on a string (\<open>StringToNumber\<close>): white space is trimmed at both ends; the
  empty string is 0; then a signed decimal literal with optional fraction and exponent,
  a signed \<open>Infinity\<close>, or an unsigned hexadecimal, octal or binary literal; anything else
  is \<open>NaN\<close>. The value of the literal is rounded to a double.
\<close>

definition trim :: "string \<Rightarrow> string" where
  "trim s = rev (dropWhile is_space (rev (dropWhile is_space s)))"

definition radix_digit :: "char \<Rightarrow> int option" where
  "radix_digit c =
     (let n = (of_char c :: int)
      in if 48 \<le> n \<and> n \<le> 57 then Some (n - 48)
         else if 97 \<le> n \<and> n \<le> 102 then Some (n - 87)
         else if 65 \<le> n \<and> n \<le> 70 then Some (n - 55)
         else None)"

fun radix_val :: "int \<Rightarrow> int \<Rightarrow> string \<Rightarrow> int option" where
  "radix_val b acc [] = Some acc"
| "radix_val b acc (c # cs) =
     (case radix_digit c of
        None \<Rightarrow> None
      | Some d \<Rightarrow> if d < b then radix_val b (b * acc + d) cs else None)"

definition radix_literal :: "int \<Rightarrow> string \<Rightarrow> number" where
  "radix_literal b ds =
     (if ds = [] then NaN
      else case radix_val b 0 ds of None \<Rightarrow> NaN | Some n \<Rightarrow> round_double (of_int n))"

definition exponent_part :: "string \<Rightarrow> int option" where
  "exponent_part s =
     (case s of
        [] \<Rightarrow> Some 0
      | c # r \<Rightarrow>
          if c = CHR ''e'' \<or> c = CHR ''E'' then
            (let neg = (case r of d # _ \<Rightarrow> d = CHR ''-'' | [] \<Rightarrow> False);
                 ds = (case r of d # r' \<Rightarrow> if d = CHR ''-'' \<or> d = CHR ''+'' then r' else r | [] \<Rightarrow> r)
             in if ds \<noteq> [] \<and> list_all is_digit ds
                then Some (if neg then - digits_val ds else digits_val ds)
                else None)
          else None)"

definition decimal_literal :: "string \<Rightarrow> rat option" where
  "decimal_literal s =
     (let ip = takeWhile is_digit s;
          r1 = dropWhile is_digit s;
          fp = (case r1 of c # t \<Rightarrow> if c = CHR ''.'' then takeWhile is_digit t else [] | [] \<Rightarrow> []);
          r2 = (case r1 of c # t \<Rightarrow> if c = CHR ''.'' then dropWhile is_digit t else r1 | [] \<Rightarrow> [])
      in if ip = [] \<and> fp = [] then None
         else case exponent_part r2 of
                None \<Rightarrow> None
              | Some e \<Rightarrow>
                  Some ((of_int (digits_val ip) + of_int (digits_val fp) / 10 ^ length fp)
                        * power10 e))"

definition signed_literal :: "string \<Rightarrow> number" where
  "signed_literal s =
     (let neg = (case s of c # _ \<Rightarrow> c = CHR ''-'' | [] \<Rightarrow> False);
          u = (case s of c # r \<Rightarrow> if c = CHR ''-'' \<or> c = CHR ''+'' then r else s | [] \<Rightarrow> s)
      in if u = ''Infinity'' then (if neg then NInf else PInf)
         else case decimal_literal u of
                None \<Rightarrow> NaN
              | Some r \<Rightarrow> round_double (if neg then - r else r))"

definition StringToNumber :: "string \<Rightarrow> number" where
  "StringToNumber s =
     (let t = trim s
      in if t = [] then Fin 0
         else if take 2 t = ''0x'' \<or> take 2 t = ''0X'' then radix_literal 16 (drop 2 t)
         else if take 2 t = ''0o'' \<or> take 2 t = ''0O'' then radix_literal 8 (drop 2 t)
         else if take 2 t = ''0b'' \<or> take 2 t = ''0B'' then radix_literal 2 (drop 2 t)
         else signed_literal t)"

text \<open>
  \<open>Number(v)\<close>. An array or object is converted through its string, and throws where
  that throws.
\<close>

definition ToNumber :: "jsval \<Rightarrow> error + number" where
  "ToNumber v =
     (case v of
        Undefined \<Rightarrow> Inr NaN
      | Null \<Rightarrow> Inr (Fin 0)
      | Bool b \<Rightarrow> Inr (Fin (if b then 1 else 0))
      | Num n \<Rightarrow> Inr n
      | Str s \<Rightarrow> Inr (StringToNumber s)
      | _ \<Rightarrow> (case ToString v of Inl e \<Rightarrow> Inl e | Inr s \<Rightarrow> Inr (StringToNumber s)))"

text \<open>
  \<open>a + b\<close> on values. Each operand is first made primitive, an array or object becoming
  its string (or throwing). When either is then a string, the strings are concatenated;
  otherwise the numbers are added.
\<close>

definition ToPrimitive :: "jsval \<Rightarrow> error + jsval" where
  "ToPrimitive v =
     (case v of
        Arr xs \<Rightarrow> (case ToString v of Inl e \<Rightarrow> Inl e | Inr s \<Rightarrow> Inr (Str s))
      | Obj kvs \<Rightarrow> (case ToString v of Inl e \<Rightarrow> Inl e | Inr s \<Rightarrow> Inr (Str s))
      | _ \<Rightarrow> Inr v)"

fun is_string :: "jsval \<Rightarrow> bool" where
  "is_string (Str _) = True"
| "is_string _ = False"

definition js_plus :: "jsval \<Rightarrow> jsval \<Rightarrow> error + jsval" where
  "js_plus a b =
     (case ToPrimitive a of
        Inl e \<Rightarrow> Inl e
      | Inr pa \<Rightarrow>
          (case ToPrimitive b of
             Inl e \<Rightarrow> Inl e
           | Inr pb \<Rightarrow>
               if is_string pa \<or> is_string pb then
                 (case ToString pa of
                    Inl e \<Rightarrow> Inl e
                  | Inr sa \<Rightarrow>
                      (case ToString pb of Inl e \<Rightarrow> Inl e | Inr sb \<Rightarrow> Inr (Str (sa @ sb))))
               else
                 (case ToNumber pa of
                    Inl e \<Rightarrow> Inl e
                  | Inr na \<Rightarrow>
                      (case ToNumber pb of
                         Inl e \<Rightarrow> Inl e
                       | Inr nb \<Rightarrow> Inr (Num (number_add na nb))))))"

subsection \<open>Property access\<close>

text \<open>
  \<open>v.k\<close> for the property names the cart reads (\<open>id\<close>, \<open>name\<close>, \<open>price\<close>, \<open>qty\<close>): a
  \<open>TypeError\<close> on \<open>null\<close> and \<open>undefined\<close>, the own property of an object, and \<open>undefined\<close>
  for a missing property and on every other value.
\<close>

definition js_get :: "jsval \<Rightarrow> string \<Rightarrow> error + jsval" where
  "js_get v k =
     (case v of
        Undefined \<Rightarrow> Inl TypeError
      | Null \<Rightarrow> Inl TypeError
      | Obj kvs \<Rightarrow> Inr (case map_of kvs k of None \<Rightarrow> Undefined | Some x \<Rightarrow> x)
      | _ \<Rightarrow> Inr Undefined)"

text \<open>Writing an own property keeps its place in the enumeration order; a new one goes last.\<close>

fun assign :: "string \<Rightarrow> jsval \<Rightarrow> (string \<times> jsval) list \<Rightarrow> (string \<times> jsval) list" where
  "assign k v [] = [(k, v)]"
| "assign k v ((k', v') # kvs) = (if k' = k then (k, v) # kvs else (k', v') # assign k v kvs)"

text \<open>
  \<open>v.k = x\<close>. The file is in strict mode, so the assignment throws on a primitive value.
  On an array it adds a named property, which is no element and which \<open>JSON.stringify\<close>
  leaves out: the array is returned as it was.
\<close>

definition js_set :: "jsval \<Rightarrow> string \<Rightarrow> jsval \<Rightarrow> error + jsval" where
  "js_set v k x =
     (case v of
        Obj kvs \<Rightarrow> Inr (Obj (assign k x kvs))
      | Arr xs \<Rightarrow> Inr (Arr xs)
      | _ \<Rightarrow> Inl TypeError)"

text \<open>
  The elements \<open>cart[0], cart[1], ...\<close> that a loop \<open>for (i = 0; i < cart.length; i++)\<close>
  visits. A string has its characters; a number or boolean has no \<open>length\<close>, so the loop
  body never runs; \<open>null.length\<close> throws. An object is read as the array-like it may be:
  its \<open>length\<close> property bounds the loop and its properties \<open>0\<close>, \<open>1\<close>, ... are the elements,
  a missing one being \<open>undefined\<close>. The loop body reads a property of the element and so
  throws at the first missing one, which comes no later than index \<open>length kvs\<close>. The
  comparison \<open>i < cart.length\<close> converts the length to a number, and throws where that
  throws.
\<close>

definition array_like :: "(string \<times> jsval) list \<Rightarrow> error + jsval list" where
  "array_like kvs =
     (case ToNumber (case map_of kvs ''length'' of None \<Rightarrow> Undefined | Some x \<Rightarrow> x) of
        Inl e \<Rightarrow> Inl e
      | Inr len \<Rightarrow>
          Inr (map (\<lambda>i. case map_of kvs (show_nat (int i)) of None \<Rightarrow> Undefined | Some x \<Rightarrow> x)
                 (filter (\<lambda>i. number_less (Fin (of_nat i)) len) [0 ..< Suc (length kvs)])))"

definition elements :: "jsval \<Rightarrow> error + jsval list" where
  "elements cart =
     (case cart of
        Undefined \<Rightarrow> Inl TypeError
      | Null \<Rightarrow> Inl TypeError
      | Arr xs \<Rightarrow> Inr xs
      | Str s \<Rightarrow> Inr (map (\<lambda>c. Str [c]) s)
      | Obj kvs \<Rightarrow> array_like kvs
      | _ \<Rightarrow> Inr [])"

text \<open>\<open>cart[i] = x\<close> after an element was changed in place.\<close>

definition put_elem :: "jsval \<Rightarrow> nat \<Rightarrow> jsval \<Rightarrow> jsval" where
  "put_elem cart i x =
     (case cart of
        Arr xs \<Rightarrow> Arr (xs[i := x])
      | Obj kvs \<Rightarrow> Obj (assign (show_nat (int i)) x kvs)
      | _ \<Rightarrow> cart)"

text \<open>\<open>cart.push(x)\<close>: only an array has the method.\<close>

definition js_push :: "jsval \<Rightarrow> jsval \<Rightarrow> error + jsval" where
  "js_push cart x = (case cart of Arr xs \<Rightarrow> Inr (Arr (xs @ [x])) | _ \<Rightarrow> Inl TypeError)"

subsection \<open>Storage and JSON\<close>

text \<open>
  \<open>localStorage\<close> holds a text under the key \<open>meridian_cart\<close>, or nothing. The text is
  modelled by what \<open>JSON.parse\<close> makes of it: the empty text, a text that is no JSON, or
  a text that parses to a value.
\<close>

datatype payload = Empty_text | Invalid_text | Json_text jsval

fun JSON_parse :: "payload \<Rightarrow> error + jsval" where
  "JSON_parse Empty_text = Inl SyntaxError"
| "JSON_parse Invalid_text = Inl SyntaxError"
| "JSON_parse (Json_text v) = Inr v"

text \<open>
  The value that the text \<open>JSON.stringify(v)\<close> parses to: \<open>NaN\<close> and the infinities are
  written as \<open>null\<close>, as is an \<open>undefined\<close> array element; a property whose value is
  \<open>undefined\<close> is left out; finite numbers and strings come back as they were.
\<close>

fun json_norm :: "jsval \<Rightarrow> jsval" where
  "json_norm Undefined = Null"
| "json_norm Null = Null"
| "json_norm (Bool b) = Bool b"
| "json_norm (Num (Fin r)) = Num (Fin r)"
| "json_norm (Num _) = Null"
| "json_norm (Str s) = Str s"
| "json_norm (Arr xs) = Arr (map json_norm xs)"
| "json_norm (Obj kvs) =
     Obj (map (\<lambda>(k, v). (k, json_norm v)) (filter (\<lambda>(k, v). v \<noteq> Undefined) kvs))"

text \<open>
  \<open>JSON.stringify(undefined)\<close> is \<open>undefined\<close>, which \<open>setItem\<close> stores as the text
  \<open>undefined\<close>: no JSON.
\<close>

definition JSON_stringify :: "jsval \<Rightarrow> payload" where
  "JSON_stringify v = (if v = Undefined then Invalid_text else Json_text (json_norm v))"

record state =
  stored :: "payload option"
  full :: bool
  notified :: "jsval list"
  drawer_open :: bool

text \<open>
  \<open>stored\<close> is the text under the key (\<open>None\<close>: no such key); \<open>full\<close> says that the
  storage quota is exhausted, so that \<open>setItem\<close> throws; \<open>notified\<close> lists the carts sent
  with the \<open>cart:updated\<close> events, latest first; \<open>drawer_open\<close> says that \<open>openCart\<close>
  has run, which locks the page scroll and opens the drawer where the page has one.
\<close>

definition getItem :: "state \<Rightarrow> payload option" where
  "getItem st = stored st"

definition setItem :: "payload \<Rightarrow> state \<Rightarrow> error + state" where
  "setItem t st = (if full st then Inl QuotaExceededError else Inr (st\<lparr>stored := Some t\<rparr>))"

type_synonym 'a result = "(error + 'a) \<times> state"

subsection \<open>Core data helpers\<close>

text \<open>
  \<open>getCart\<close>: \<open>raw ? JSON.parse(raw) : []\<close> inside \<open>try\<close>; the \<open>catch\<close> returns \<open>[]\<close>. The
  result is \<open>Inr\<close> of a value when the function returns and \<open>Inl\<close> of an error when it
  throws.
\<close>

definition getCart_try :: "state \<Rightarrow> error + jsval" where
  "getCart_try st =
     (case getItem st of
        None \<Rightarrow> Inr (Arr [])
      | Some raw \<Rightarrow> if raw = Empty_text then Inr (Arr []) else JSON_parse raw)"

definition getCart :: "state \<Rightarrow> error + jsval" where
  "getCart st = (case getCart_try st of Inl e \<Rightarrow> Inr (Arr []) | Inr v \<Rightarrow> Inr v)"

text \<open>
  \<open>totalItems\<close>, which \<open>renderCartIcon\<close> calls: \<open>getCart().reduce(...)\<close> adds
  \<open>Number(item.qty) || 0\<close> over the items. Only an array has \<open>reduce\<close>.
\<close>

fun sum_qty :: "number \<Rightarrow> jsval list \<Rightarrow> error + number" where
  "sum_qty acc [] = Inr acc"
| "sum_qty acc (x # xs) =
     (case js_get x ''qty'' of
        Inl e \<Rightarrow> Inl e
      | Inr q \<Rightarrow>
          (case ToNumber q of
             Inl e \<Rightarrow> Inl e
           | Inr n \<Rightarrow> sum_qty (number_add acc (number_or n (Fin 0))) xs))"

definition totalItems :: "state \<Rightarrow> error + number" where
  "totalItems st =
     (case getCart st of
        Inl e \<Rightarrow> Inl e
      | Inr cart \<Rightarrow> (case cart of Arr xs \<Rightarrow> sum_qty (Fin 0) xs | _ \<Rightarrow> Inl TypeError))"

text \<open>
  \<open>saveCart\<close>: the write is inside \<open>try\<close>, and a failed write is only logged. Then the
  event is dispatched and the views are rendered. Rendering changes the page only; what
  is kept of it is the error that \<open>renderCartIcon\<close> throws when \<open>totalItems\<close> cannot sum
  the stored cart, which passes to the caller after the write and the event. The page is
  one without the element \<open>cartSidebar\<close>, on which \<open>renderCartSidebar\<close> returns at once.
\<close>

definition saveCart :: "jsval \<Rightarrow> state \<Rightarrow> unit result" where
  "saveCart cart st =
     (let st1 = (case setItem (JSON_stringify cart) st of Inl e \<Rightarrow> st | Inr st' \<Rightarrow> st');
          st2 = st1\<lparr>notified := cart # notified st1\<rparr>
      in case totalItems st2 of Inl e \<Rightarrow> (Inl e, st2) | Inr n \<Rightarrow> (Inr (), st2))"

definition openCart :: "state \<Rightarrow> state" where
  "openCart st = st\<lparr>drawer_open := True\<rparr>"

subsection \<open>Cart operations\<close>

text \<open>
  The search loop of \<open>addToCart\<close>, \<open>addItem\<close> and \<open>updateQuantity\<close>: the first index \<open>i\<close>
  with \<open>cart[i].id === productId\<close>, and the element there.
\<close>

fun find_existing :: "jsval \<Rightarrow> jsval list \<Rightarrow> error + (nat \<times> jsval) option" where
  "find_existing productId [] = Inr None"
| "find_existing productId (x # xs) =
     (case js_get x ''id'' of
        Inl e \<Rightarrow> Inl e
      | Inr v \<Rightarrow>
          if strict_eq v productId then Inr (Some (0, x))
          else (case find_existing productId xs of
                  Inl e \<Rightarrow> Inl e
                | Inr None \<Rightarrow> Inr None
                | Inr (Some (i, y)) \<Rightarrow> Inr (Some (Suc i, y))))"

text \<open>
  The object literal that \<open>addToCart\<close> and \<open>addItem\<close> push. Its properties are evaluated
  in order, and the first conversion that throws ends the call.
\<close>

definition new_item :: "jsval \<Rightarrow> jsval \<Rightarrow> jsval \<Rightarrow> number \<Rightarrow> error + jsval" where
  "new_item productId name price qty =
     (case ToString productId of
        Inl e \<Rightarrow> Inl e
      | Inr i \<Rightarrow>
          (case ToString name of
             Inl e \<Rightarrow> Inl e
           | Inr n \<Rightarrow>
               (case ToNumber price of
                  Inl e \<Rightarrow> Inl e
                | Inr p \<Rightarrow>
                    Inr (Obj [(''id'', Str i),
                              (''name'', Str n),
                              (''price'', Num (number_or p (Fin 0))),
                              (''qty'', Num qty)]))))"

text \<open>\<open>cart.push({...})\<close>.\<close>

definition push_new :: "jsval \<Rightarrow> jsval \<Rightarrow> jsval \<Rightarrow> jsval \<Rightarrow> number \<Rightarrow> error + jsval" where
  "push_new cart productId name price qty =
     (case new_item productId name price qty of
        Inl e \<Rightarrow> Inl e
      | Inr item \<Rightarrow> js_push cart item)"

text \<open>
  The variable \<open>existing\<close> after the loop: \<open>null\<close> when nothing was found, the element
  found otherwise.
\<close>

definition existing_of :: "(nat \<times> jsval) option \<Rightarrow> jsval" where
  "existing_of found = (case found of None \<Rightarrow> Null | Some (i, x) \<Rightarrow> x)"

text \<open>
  The body shared by \<open>addToCart\<close> (with \<open>qty = 1\<close>) and \<open>addItem\<close>: the search loop, then
  \<open>if (existing) existing.qty = (existing.qty || 1) + qty; else cart.push({...})\<close>.
\<close>

definition add_line :: "jsval \<Rightarrow> jsval \<Rightarrow> jsval \<Rightarrow> jsval \<Rightarrow> number \<Rightarrow> error + jsval" where
  "add_line cart productId name price qty =
     (case elements cart of
        Inl e \<Rightarrow> Inl e
      | Inr xs \<Rightarrow>
          (case find_existing productId xs of
             Inl e \<Rightarrow> Inl e
           | Inr found \<Rightarrow>
               if truthy (existing_of found) then
                 (case found of
                    None \<Rightarrow> push_new cart productId name price qty
                  | Some (i, existing) \<Rightarrow>
                      (case js_get existing ''qty'' of
                         Inl e \<Rightarrow> Inl e
                       | Inr q \<Rightarrow>
                           (case js_plus (js_or q (Num (Fin 1))) (Num qty) of
                              Inl e \<Rightarrow> Inl e
                            | Inr q' \<Rightarrow>
                                (case js_set existing ''qty'' q' of
                                   Inl e \<Rightarrow> Inl e
                                 | Inr existing' \<Rightarrow> Inr (put_elem cart i existing')))))
               else push_new cart productId name price qty))"

definition addToCart :: "jsval \<Rightarrow> jsval \<Rightarrow> jsval \<Rightarrow> state \<Rightarrow> unit result" where
  "addToCart productId name price st =
     (case getCart st of
        Inl e \<Rightarrow> (Inl e, st)
      | Inr cart \<Rightarrow>
          (case add_line cart productId name price (Fin 1) of
             Inl e \<Rightarrow> (Inl e, st)
           | Inr cart' \<Rightarrow>
               (case saveCart cart' st of
                  (Inl e, st') \<Rightarrow> (Inl e, st')
                | (Inr u, st') \<Rightarrow> (Inr (), openCart st'))))"

text \<open>
  \<open>addItem\<close>: \<open>qty = parseInt(qty, 10) || 1\<close>, which throws where the conversion of
  \<open>qty\<close> to a string throws; then as above; it returns the cart.
\<close>

definition effective_qty :: "jsval \<Rightarrow> error + number" where
  "effective_qty qty =
     (case parseInt qty of Inl e \<Rightarrow> Inl e | Inr q \<Rightarrow> Inr (number_or q (Fin 1)))"

definition addItem :: "jsval \<Rightarrow> jsval \<Rightarrow> jsval \<Rightarrow> jsval \<Rightarrow> state \<Rightarrow> jsval result" where
  "addItem productId name price qty st =
     (case effective_qty qty of
        Inl e \<Rightarrow> (Inl e, st)
      | Inr qty' \<Rightarrow>
          (case getCart st of
             Inl e \<Rightarrow> (Inl e, st)
           | Inr cart \<Rightarrow>
               (case add_line cart productId name price qty' of
                  Inl e \<Rightarrow> (Inl e, st)
                | Inr cart' \<Rightarrow>
                    (case saveCart cart' st of
                       (Inl e, st') \<Rightarrow> (Inl e, st')
                     | (Inr u, st') \<Rightarrow> (Inr cart', st')))))"

text \<open>\<open>removeFromCart\<close>: \<open>getCart().filter(item => item.id !== productId)\<close>, then save.\<close>

fun filter_out :: "jsval \<Rightarrow> jsval list \<Rightarrow> error + jsval list" where
  "filter_out productId [] = Inr []"
| "filter_out productId (x # xs) =
     (case js_get x ''id'' of
        Inl e \<Rightarrow> Inl e
      | Inr v \<Rightarrow>
          (case filter_out productId xs of
             Inl e \<Rightarrow> Inl e
           | Inr ys \<Rightarrow> Inr (if strict_eq v productId then ys else x # ys)))"

definition removeFromCart :: "jsval \<Rightarrow> state \<Rightarrow> unit result" where
  "removeFromCart productId st =
     (case getCart st of
        Inl e \<Rightarrow> (Inl e, st)
      | Inr cart \<Rightarrow>
          (case cart of
             Arr xs \<Rightarrow>
               (case filter_out productId xs of
                  Inl e \<Rightarrow> (Inl e, st)
                | Inr ys \<Rightarrow> saveCart (Arr ys) st)
           | _ \<Rightarrow> (Inl TypeError, st)))"

definition removeItem :: "jsval \<Rightarrow> state \<Rightarrow> jsval result" where
  "removeItem productId st =
     (case removeFromCart productId st of
        (Inl e, st') \<Rightarrow> (Inl e, st')
      | (Inr u, st') \<Rightarrow> (getCart st', st'))"

text \<open>
  \<open>updateQuantity\<close>: \<open>qty = parseInt(qty, 10)\<close>, which may throw; return at once when it
  is \<open>NaN\<close> or negative; \<open>removeFromCart\<close> when it is 0; otherwise set the quantity of the first item
  with the id, if any, and save.
\<close>

definition updateQuantity :: "jsval \<Rightarrow> jsval \<Rightarrow> state \<Rightarrow> unit result" where
  "updateQuantity productId qty st =
     (case parseInt qty of
        Inl e \<Rightarrow> (Inl e, st)
      | Inr qty' \<Rightarrow>
          if isNaN qty' \<or> number_less qty' (Fin 0) then (Inr (), st)
          else if strict_eq (Num qty') (Num (Fin 0)) then removeFromCart productId st
          else
            (case getCart st of
               Inl e \<Rightarrow> (Inl e, st)
             | Inr cart \<Rightarrow>
                 (case elements cart of
                    Inl e \<Rightarrow> (Inl e, st)
                  | Inr xs \<Rightarrow>
                      (case find_existing productId xs of
                         Inl e \<Rightarrow> (Inl e, st)
                       | Inr None \<Rightarrow> saveCart cart st
                       | Inr (Some (i, x)) \<Rightarrow>
                           (case js_set x ''qty'' (Num qty') of
                              Inl e \<Rightarrow> (Inl e, st)
                            | Inr x' \<Rightarrow> saveCart (put_elem cart i x') st)))))"

definition clearCart :: "state \<Rightarrow> unit result" where
  "clearCart st = saveCart (Arr []) st"


subsection \<open>Carts, calls and queries\<close>

text \<open>
  The state of a browser that has never stored a cart, and the state whose stored text
  parses to a given value.
\<close>

definition empty_state :: state where
  "empty_state = \<lparr>stored = None, full = False, notified = [], drawer_open = False\<rparr>"

definition holding :: "jsval \<Rightarrow> state" where
  "holding cart = empty_state\<lparr>stored := Some (Json_text cart)\<rparr>"

text \<open>
  A line item \<open>{id, name, price, qty}\<close> with string id and name and finite price and
  quantity, and the cart of a list of them.
\<close>

definition line_item :: "string \<Rightarrow> string \<Rightarrow> rat \<Rightarrow> rat \<Rightarrow> jsval" where
  "line_item i n p q =
     Obj [(''id'', Str i), (''name'', Str n), (''price'', Num (Fin p)), (''qty'', Num (Fin q))]"

definition items_of :: "(string \<times> string \<times> rat \<times> rat) list \<Rightarrow> jsval list" where
  "items_of ls = map (\<lambda>(i, n, p, q). line_item i n p q) ls"

definition cart_of :: "(string \<times> string \<times> rat \<times> rat) list \<Rightarrow> jsval" where
  "cart_of ls = Arr (items_of ls)"

text \<open>The ids of the items of the stored cart, in order.\<close>

definition item_id :: "jsval \<Rightarrow> jsval" where
  "item_id x = (case js_get x ''id'' of Inl e \<Rightarrow> Undefined | Inr v \<Rightarrow> v)"

definition cart_ids :: "state \<Rightarrow> jsval list" where
  "cart_ids st =
     (case getCart st of
        Inl e \<Rightarrow> []
      | Inr cart \<Rightarrow> (case cart of Arr xs \<Rightarrow> map item_id xs | _ \<Rightarrow> []))"

text \<open>
  The quantity of the item that the operations find for an id in the stored cart: the
  first one whose id is \<open>===\<close> to it.
\<close>

definition quantity_of :: "jsval \<Rightarrow> state \<Rightarrow> jsval option" where
  "quantity_of productId st =
     (case getCart st of
        Inl e \<Rightarrow> None
      | Inr cart \<Rightarrow>
          (case cart of
             Arr xs \<Rightarrow>
               (case find_existing productId xs of
                  Inl e \<Rightarrow> None
                | Inr None \<Rightarrow> None
                | Inr (Some (i, x)) \<Rightarrow>
                    (case js_get x ''qty'' of Inl e \<Rightarrow> None | Inr q \<Rightarrow> Some q))
           | _ \<Rightarrow> None))"

text \<open>
  The public operations that change the cart, as calls, and the state after a call and
  after a sequence of calls. A call that throws leaves the state it had reached.
\<close>

datatype call =
    AddToCart jsval jsval jsval
  | AddItem jsval jsval jsval jsval
  | RemoveFromCart jsval
  | UpdateQuantity jsval jsval
  | ClearCart

fun run :: "call \<Rightarrow> state \<Rightarrow> state" where
  "run (AddToCart productId name price) st = snd (addToCart productId name price st)"
| "run (AddItem productId name price qty) st = snd (addItem productId name price qty st)"
| "run (RemoveFromCart productId) st = snd (removeFromCart productId st)"
| "run (UpdateQuantity productId qty) st = snd (updateQuantity productId qty st)"
| "run ClearCart st = snd (clearCart st)"

fun run_all :: "call list \<Rightarrow> state \<Rightarrow> state" where
  "run_all [] st = st"
| "run_all (c # cs) st = run_all cs (run c st)"

text \<open>
  An item \<open>{id, name, price, qty}\<close> with string id and name, whatever its price and
  quantity.
\<close>

definition stored_item :: "string \<Rightarrow> string \<Rightarrow> jsval \<Rightarrow> jsval \<Rightarrow> jsval" where
  "stored_item i n p q = Obj [(''id'', Str i), (''name'', Str n), (''price'', p), (''qty'', q)]"


section \<open>Properties\<close>

subsection \<open>Reading the stored cart\<close>

text \<open>
  Claim C6. When the key is missing, or the stored text fails to parse as JSON,
  \<open>getCart\<close> returns the empty cart; it returns, and throws nothing.
\<close>

theorem getCart_missing_or_malformed:
  assumes "stored st = None \<or> (stored st = Some raw \<and> JSON_parse raw = Inl e)"
  shows "getCart st = Inr (Arr [])"
  using assms by (auto simp: getCart_def getCart_try_def getItem_def)

theorem getCart_missing_or_malformed_witness:
  "getCart empty_state = Inr (Arr []) \<and>
   getCart (empty_state\<lparr>stored := Some Invalid_text\<rparr>) = Inr (Arr []) \<and>
   getCart (empty_state\<lparr>stored := Some Empty_text\<rparr>) = Inr (Arr [])"
  using getCart_missing_or_malformed [of empty_state Invalid_text SyntaxError]
    getCart_missing_or_malformed [of "empty_state\<lparr>stored := Some Invalid_text\<rparr>" Invalid_text SyntaxError]
    getCart_missing_or_malformed [of "empty_state\<lparr>stored := Some Empty_text\<rparr>" Empty_text SyntaxError]
  by (simp add: empty_state_def)

text \<open>
  Claim C9. When the stored text is valid JSON, \<open>getCart\<close> returns the parsed value as it
  is, array or not: a stored \<open>5\<close> gives the number 5 and a stored object gives that
  object, not the empty cart.
\<close>

theorem getCart_parsed_value:
  assumes "stored st = Some raw" and "JSON_parse raw = Inr v"
  shows "getCart st = Inr v"
  using assms by (cases raw) (auto simp: getCart_def getCart_try_def getItem_def)

theorem getCart_parsed_value_witness:
  "getCart (holding (Num (Fin 5))) = Inr (Num (Fin 5)) \<and>
   getCart (holding (Obj [(''id'', Str ''a'')])) = Inr (Obj [(''id'', Str ''a'')])"
  using getCart_parsed_value [of "holding (Num (Fin 5))" "Json_text (Num (Fin 5))" "Num (Fin 5)"]
    getCart_parsed_value [of "holding (Obj [(''id'', Str ''a'')])"
      "Json_text (Obj [(''id'', Str ''a'')])" "Obj [(''id'', Str ''a'')]"]
  by (simp add: holding_def empty_state_def)

subsection \<open>Setting a quantity\<close>

lemma parseInt_zero: "parseInt (Num (Fin 0)) = Inr (Fin 0)"
  by code_simp

text \<open>
  Claim C8. For every state and every id, \<open>updateQuantity(id, 0)\<close> gives the same result
  and the same state as \<open>removeFromCart(id)\<close>.
\<close>

theorem updateQuantity_zero_is_removeFromCart:
  "updateQuantity productId (Num (Fin 0)) st = removeFromCart productId st"
  by (simp add: updateQuantity_def parseInt_zero isNaN_def)

text \<open>
  Claim C1. A quantity that parses to a value below 0 should remove the item, as
  \<open>removeFromCart\<close> does. On the cart holding item \<open>a\<close> with quantity 2,
  \<open>updateQuantity('a', -1)\<close> returns with the state unchanged, the item still in the
  cart, while \<open>removeFromCart('a')\<close> leaves the empty cart.
\<close>

theorem updateQuantity_negative_keeps_item:
  "updateQuantity (Str ''a'') (Num (Fin (- 1))) (holding (cart_of [(''a'', ''A'', 1, 2)]))
     = (Inr (), holding (cart_of [(''a'', ''A'', 1, 2)])) \<and>
   getCart (snd (removeFromCart (Str ''a'') (holding (cart_of [(''a'', ''A'', 1, 2)]))))
     = Inr (Arr [])"
  by code_simp

subsection \<open>Quantities of reachable carts\<close>

text \<open>
  Claim C2. Every quantity in a cart reached from the empty cart should be a positive
  integer. \<open>addItem('sku1', 'Lamp', 49.99, -3)\<close> on the empty cart stores an item with
  quantity -3.
\<close>

theorem addItem_negative_quantity:
  "getCart (run_all [AddItem (Str ''sku1'') (Str ''Lamp'') (Num (Fin (4999 / 100))) (Num (Fin (- 3)))]
      empty_state)
     = Inr (cart_of [(''sku1'', ''Lamp'', 4999 / 100, - 3)])"
  by code_simp

subsection \<open>Saving and reading back\<close>

lemma snd_saveCart:
  "snd (saveCart cart st) =
     (if full st then st else st\<lparr>stored := Some (JSON_stringify cart)\<rparr>)\<lparr>notified := cart # notified st\<rparr>"
  by (simp add: saveCart_def setItem_def Let_def split: sum.splits)

lemma getCart_stored: "stored st = Some (Json_text v) \<Longrightarrow> getCart st = Inr v"
  by (simp add: getCart_def getCart_try_def getItem_def)

lemma getCart_saveCart:
  "\<not> full st \<Longrightarrow> cart \<noteq> Undefined \<Longrightarrow> getCart (snd (saveCart cart st)) = Inr (json_norm cart)"
  by (simp add: snd_saveCart JSON_stringify_def getCart_def getCart_try_def getItem_def)

lemma getCart_saveCart_full: "full st \<Longrightarrow> getCart (snd (saveCart cart st)) = getCart st"
  by (simp add: snd_saveCart getCart_def getCart_try_def getItem_def)

lemma json_norm_line_item: "json_norm (line_item i n p q) = line_item i n p q"
  by (simp add: line_item_def)

lemma json_norm_items_of: "map json_norm (items_of ls) = items_of ls"
  by (induction ls) (auto simp: items_of_def json_norm_line_item)

lemma json_norm_cart_of: "json_norm (cart_of ls) = cart_of ls"
  by (simp add: cart_of_def json_norm_items_of)

lemma cart_of_not_Undefined: "cart_of ls \<noteq> Undefined"
  by (simp add: cart_of_def)

text \<open>
  Claim C7. Saving a cart of line items with string ids and names and finite prices and
  quantities, with room left in the storage, and reading it back gives the same cart:
  the same ids, names, prices and quantities in the same order.
\<close>

theorem saveCart_getCart_roundtrip:
  assumes "\<not> full st"
  shows "getCart (snd (saveCart (cart_of ls) st)) = Inr (cart_of ls)"
  using assms by (simp add: getCart_saveCart json_norm_cart_of cart_of_not_Undefined)

theorem saveCart_getCart_roundtrip_witness:
  "getCart (snd (saveCart (cart_of [(''sku1'', ''Lamp'', 4999 / 100, 3), (''sku2'', ''Desk'', 120, 1)]) empty_state))
     = Inr (cart_of [(''sku1'', ''Lamp'', 4999 / 100, 3), (''sku2'', ''Desk'', 120, 1)])"
  using saveCart_getCart_roundtrip [of empty_state "[(''sku1'', ''Lamp'', 4999 / 100, 3), (''sku2'', ''Desk'', 120, 1)]"]
  by (simp add: empty_state_def)

text \<open>
  An infinite price is a number too, and it does not come back: it is read back as
  \<open>null\<close>.
\<close>

theorem saveCart_infinite_price_read_back_null:
  "getCart (snd (saveCart
      (Arr [Obj [(''id'', Str ''a''), (''name'', Str ''A''), (''price'', Num PInf), (''qty'', Num (Fin 1))]])
      empty_state))
     = Inr (Arr [Obj [(''id'', Str ''a''), (''name'', Str ''A''), (''price'', Null), (''qty'', Num (Fin 1))]])"
  by code_simp


subsection \<open>The price of a pushed item\<close>




lemma new_item_converted:
  "ToString productId = Inr i \<Longrightarrow> ToString name = Inr n \<Longrightarrow> ToNumber price = Inr p \<Longrightarrow>
   new_item productId name price q = Inr (stored_item i n (Num (number_or p (Fin 0))) (Num q))"
  by (simp add: new_item_def stored_item_def)

lemma add_line_push:
  "find_existing productId xs = Inr found \<Longrightarrow> \<not> truthy (existing_of found) \<Longrightarrow>
   new_item productId name price qty = Inr item \<Longrightarrow>
   add_line (Arr xs) productId name price qty = Inr (Arr (xs @ [item]))"
  by (simp add: add_line_def elements_def push_new_def js_push_def)



lemma snd_addItem:
  "effective_qty qty = Inr q \<Longrightarrow> getCart st = Inr cart \<Longrightarrow>
   add_line cart productId name price q = Inr cart' \<Longrightarrow>
   snd (addItem productId name price qty st) = snd (saveCart cart' st)"
  by (simp add: addItem_def split: prod.splits sum.splits)







text \<open>
  A conversion that throws ends the call before anything is pushed, written or sent: a
  price that is an object with an own property \<open>toString\<close> cannot be converted.
\<close>

lemma addToCart_unconvertible_price_throws:
  "addToCart (Str ''a'') (Str ''A'') (Obj [(''toString'', Num (Fin 1))]) empty_state
     = (Inl TypeError, empty_state)"
  by code_simp

text \<open>
  When the element found is falsy the call appends as well: on the stored cart \<open>[0]\<close>,
  \<open>addToCart(undefined, 'A', 1)\<close> finds the element 0, whose \<open>id\<close> is \<open>undefined\<close>, and pushes.
\<close>

lemma addToCart_falsy_match_pushes:
  "getCart (run (AddToCart Undefined (Str ''A'') (Num (Fin 1))) (holding (Arr [Num (Fin 0)])))
     = Inr (Arr [Num (Fin 0),
          Obj [(''id'', Str ''undefined''), (''name'', Str ''A''), (''price'', Num (Fin 1)),
               (''qty'', Num (Fin 1))]])"
  by code_simp


subsection \<open>Whole numbers are doubles up to \<open>2 ^ 53\<close>\<close>

lemma bit_length_nonneg: "0 \<le> bit_length n"
  by (induction n rule: bit_length.induct) (subst bit_length.simps, simp)

lemma bit_length_pos: "0 < n \<Longrightarrow> 1 \<le> bit_length n"
  using bit_length_nonneg [of "n div 2"] by (subst bit_length.simps) simp

lemma bit_length_bounds:
  "0 < n \<Longrightarrow> 2 ^ nat (bit_length n - 1) \<le> n \<and> n < 2 ^ nat (bit_length n)"
proof (induction n rule: bit_length.induct)
  case (1 n)
  show ?case
  proof (cases "n = 1")
    case True
    have "bit_length 1 = 1"
      by (subst bit_length.simps) (simp add: bit_length.simps [of 0])
    then show ?thesis by (simp add: True)
  next
    case False
    then have h: "0 < n div 2" using 1 by simp
    have ih: "2 ^ nat (bit_length (n div 2) - 1) \<le> n div 2 \<and> n div 2 < 2 ^ nat (bit_length (n div 2))"
      using 1 h by simp
    have b: "bit_length n = 1 + bit_length (n div 2)"
      using 1 by (subst bit_length.simps) simp
    have p: "1 \<le> bit_length (n div 2)" using bit_length_pos [OF h] .
    have e1: "nat (bit_length n - 1) = Suc (nat (bit_length (n div 2) - 1))"
      using p b by simp
    have e2: "nat (bit_length n) = Suc (nat (bit_length (n div 2)))"
      using p b by simp
    have "2 * (n div 2) \<le> n" "n < 2 * (n div 2) + 2"
      by presburger+
    then show ?thesis
      unfolding e1 e2 power_Suc using ih by linarith
  qed
qed

lemma round_half_even_of_int: "round_half_even (of_int k) = k"
  by (simp add: round_half_even_def Let_def)

lemma pow2_below: "e \<le> 52 \<Longrightarrow> pow2 (e - 52) = 1 / of_int (2 ^ nat (52 - e))"
  by (cases "e = 52") (auto simp: pow2_def)

lemma floor_log2_of_int: "0 < n \<Longrightarrow> floor_log2 (of_int n) = bit_length n - 1"
  by (simp add: floor_log2_def)

lemma round_double_small_int:
  assumes z: "z \<noteq> 0" and b: "\<bar>z\<bar> < 2 ^ 53"
  shows "round_double (of_int z) = Fin (of_int z)"
proof -
  let ?n = "\<bar>z\<bar>"
  let ?e = "bit_length ?n - 1"
  let ?k = "nat (52 - ?e)"
  have n: "0 < ?n" using z by simp
  have e0: "0 \<le> ?e" using bit_length_pos [OF n] by simp
  have "(2::int) ^ nat ?e \<le> ?n" using bit_length_bounds [OF n] by simp
  then have "(2::int) ^ nat ?e < 2 ^ 53" using b by linarith
  then have "nat ?e < 53"
    by (simp only: power_strict_increasing_iff [of 2] one_less_numeral_iff semiring_norm)
  then have e52: "?e \<le> 52" by linarith
  have a: "\<bar>of_int z :: rat\<bar> = of_int ?n" by simp
  have fl: "floor_log2 (of_int ?n) = ?e"
    using n by (rule floor_log2_of_int)
  have mx: "max ?e (- 1022) = ?e" using e0 by simp
  have ulp: "pow2 (max (floor_log2 (of_int ?n)) (- 1022) - 52) = 1 / of_int (2 ^ ?k)"
    unfolding fl mx using pow2_below [OF e52] .
  have q: "(of_int ?n :: rat) / (1 / of_int (2 ^ ?k)) = of_int (?n * 2 ^ ?k)"
    by simp
  have v: "(of_int (round_half_even (of_int ?n / (1 / of_int (2 ^ ?k)))) :: rat) * (1 / of_int (2 ^ ?k))
             = of_int ?n"
    unfolding q round_half_even_of_int by simp
  have "(of_int ?n :: rat) < of_int (2 ^ 53)" using b by (simp only: of_int_less_iff)
  also have "\<dots> \<le> of_int (2 ^ 1024)" by simp
  finally have big: "\<not> pow2 1024 \<le> (of_int ?n :: rat)" by (simp add: pow2_def)
  have nz: "(of_int z :: rat) \<noteq> 0" using z by simp
  have sg: "(if (of_int z :: rat) < 0 then - of_int ?n else of_int ?n) = (of_int z :: rat)"
    by simp
  show ?thesis
    unfolding round_double_def Let_def a ulp v using nz big sg by (simp only: if_False)
qed

lemma round_double_two_53: "round_double 9007199254740992 = Fin 9007199254740992"
  "round_double (- 9007199254740992) = Fin (- 9007199254740992)"
  by code_simp+

lemma round_double_zero: "round_double 0 = Fin 0"
  by (simp add: round_double_def)

text \<open>Every whole number of magnitude up to \<open>2 ^ 53\<close> is a double, so rounding keeps it.\<close>

lemma round_double_int:
  assumes "\<bar>z\<bar> \<le> 2 ^ 53"
  shows "round_double (of_int z) = Fin (of_int z)"
proof -
  consider "z = 0" | "z \<noteq> 0" "\<bar>z\<bar> < 2 ^ 53" | "z = 2 ^ 53" | "z = - (2 ^ 53)"
    using assms by fastforce
  then show ?thesis
  proof cases
    case 1
    then show ?thesis by (simp add: round_double_zero)
  next
    case 2
    then show ?thesis by (rule round_double_small_int)
  next
    case 3
    then show ?thesis using round_double_two_53(1) by simp
  next
    case 4
    then show ?thesis using round_double_two_53(2) by simp
  qed
qed

lemma number_add_int:
  "\<bar>a + b\<bar> \<le> 2 ^ 53 \<Longrightarrow> number_add (Fin (of_int a)) (Fin (of_int b)) = Fin (of_int (a + b))"
  using round_double_int [of "a + b"] by simp


subsection \<open>Adding an item\<close>


lemma line_item_stored: "line_item a n p q = stored_item a n (Num (Fin p)) (Num (Fin q))"
  by (simp add: line_item_def stored_item_def)

lemma js_get_stored_item_id: "js_get (stored_item a n p q) ''id'' = Inr (Str a)"
  by (simp add: js_get_def stored_item_def)

lemma js_get_stored_item_qty: "js_get (stored_item a n p q) ''qty'' = Inr q"
  by (simp add: js_get_def stored_item_def)

lemma js_set_stored_item_qty:
  "js_set (stored_item a n p q) ''qty'' r = Inr (stored_item a n p r)"
  by (simp add: js_set_def stored_item_def)

lemma truthy_stored_item: "truthy (stored_item a n p q)"
  by (simp add: stored_item_def)

lemma json_norm_stored_item:
  "p \<noteq> Undefined \<Longrightarrow> q \<noteq> Undefined \<Longrightarrow>
   json_norm (stored_item a n p q) = stored_item a n (json_norm p) (json_norm q)"
  by (simp add: stored_item_def)

lemma js_plus_numbers: "js_plus (Num a) (Num b) = Inr (Num (number_add a b))"
  by (simp add: js_plus_def ToPrimitive_def ToNumber_def)

text \<open>On a cart of line items the search never throws: it finds nothing, or a line item.\<close>

lemma find_existing_items_of:
  "find_existing productId (items_of ls) = Inr None \<or>
   (\<exists>i a n p q. find_existing productId (items_of ls) = Inr (Some (i, line_item a n p q)))"
proof (induction ls)
  case Nil
  then show ?case by (simp add: items_of_def)
next
  case (Cons l ls)
  obtain a n p q where l: "l = (a, n, p, q)" by (cases l) auto
  have step: "items_of (l # ls) = line_item a n p q # items_of ls"
    by (simp add: items_of_def l)
  have gid: "js_get (line_item a n p q) ''id'' = Inr (Str a)"
    by (simp add: line_item_stored js_get_stored_item_id)
  show ?case
  proof (cases "strict_eq (Str a) productId")
    case True
    then show ?thesis
      unfolding step by (simp add: gid) blast
  next
    case False
    from Cons.IH show ?thesis
    proof (elim disjE exE)
      assume "find_existing productId (items_of ls) = Inr None"
      with False show ?thesis
        unfolding step by (simp add: gid)
    next
      fix i b m r t
      assume "find_existing productId (items_of ls) = Inr (Some (i, line_item b m r t))"
      with False show ?thesis
        unfolding step by (simp add: gid) blast
    qed
  qed
qed

text \<open>A number or boolean is never \<open>===\<close> to a stored id, which is a string.\<close>

lemma find_existing_items_of_not_string:
  "\<not> is_string productId \<Longrightarrow> find_existing productId (items_of ls) = Inr None"
proof (induction ls)
  case Nil
  then show ?case by (simp add: items_of_def)
next
  case (Cons l ls)
  obtain a n p q where l: "l = (a, n, p, q)" by (cases l) auto
  have step: "items_of (l # ls) = line_item a n p q # items_of ls"
    by (simp add: items_of_def l)
  have gid: "js_get (line_item a n p q) ''id'' = Inr (Str a)"
    by (simp add: line_item_stored js_get_stored_item_id)
  have ne: "\<not> strict_eq (Str a) productId"
    using Cons.prems by (cases productId) auto
  show ?case
    unfolding step using Cons ne by (simp add: gid)
qed


lemma add_line_stored_item:
  assumes "find_existing productId xs = Inr (Some (i, stored_item a n p (Num (Fin q))))"
  shows "add_line (Arr xs) productId name price r
           = Inr (Arr (xs[i := stored_item a n p
                (Num (number_add (Fin (if q = 0 then 1 else q)) r))]))"
  using assms
  by (simp add: add_line_def elements_def existing_of_def truthy_stored_item
      js_get_stored_item_qty js_or_def js_plus_numbers js_set_stored_item_qty put_elem_def)





text \<open>
  From \<open>2 ^ 53\<close> on the addition rounds: a stored quantity of 9007199254740992 stays as
  it is.
\<close>

lemma addToCart_quantity_two_53_unchanged:
  "getCart (run (AddToCart (Str ''a'') (Str ''A'') (Num (Fin 1)))
      (holding (cart_of [(''a'', ''A'', 1, 9007199254740992)])))
     = Inr (cart_of [(''a'', ''A'', 1, 9007199254740992)])"
  by code_simp

text \<open>
  An id that is not a string is never found among line items, whose ids are strings:
  \<open>addToCart(5, 'A', 1)\<close> on a cart that holds the id \<open>'5'\<close> appends a second item.
\<close>

lemma addToCart_number_id_appends:
  "getCart (run (AddToCart (Num (Fin 5)) (Str ''A'') (Num (Fin 1))) (holding (cart_of [(''5'', ''A'', 1, 1)])))
     = Inr (cart_of [(''5'', ''A'', 1, 1), (''5'', ''A'', 1, 1)])"
  by code_simp


subsection \<open>Repeated \<open>addItem\<close> on one id\<close>

lemma json_norm_not_Undefined: "json_norm v \<noteq> Undefined"
  by (induction v rule: json_norm.induct) auto

lemma json_norm_number_idem: "json_norm (json_norm (Num m)) = json_norm (Num m)"
  by (cases m) auto

lemma find_existing_append:
  "find_existing productId ys = Inr None \<Longrightarrow>
   find_existing productId (ys @ [x]) =
     (case js_get x ''id'' of
        Inl e \<Rightarrow> Inl e
      | Inr v \<Rightarrow> if strict_eq v productId then Inr (Some (length ys, x)) else Inr None)"
proof (induction ys)
  case Nil
  then show ?case by (simp split: sum.splits)
next
  case (Cons y ys)
  then show ?case
    by (auto split: sum.splits if_splits option.splits)
qed

lemma getCart_addItem:
  "effective_qty qty = Inr q \<Longrightarrow> getCart st = Inr cart \<Longrightarrow>
   add_line cart productId name price q = Inr cart' \<Longrightarrow>
   getCart (snd (addItem productId name price qty st)) = getCart (snd (saveCart cart' st))"
  by (simp add: snd_addItem)

lemma full_addItem: "full (snd (addItem productId name price qty st)) = full st"
  by (auto simp: addItem_def Let_def saveCart_def setItem_def split: prod.splits sum.splits)

text \<open>One more \<open>addItem\<close> on an id whose item is the last of the cart.\<close>

lemma addItem_last_step:
  assumes nf: "\<not> full st"
    and g: "getCart st = Inr (Arr (ys @ [stored_item s nm pr (Num (Fin (of_int t)))]))"
    and ys: "find_existing (Str s) ys = Inr None" "map json_norm ys = ys"
    and pr: "pr \<noteq> Undefined" "json_norm pr = pr"
    and t: "0 < t" "0 < k" "t + k \<le> 2 ^ 53"
    and q: "effective_qty qty = Inr (Fin (of_int k))"
  shows "getCart (snd (addItem (Str s) name price qty st))
           = Inr (Arr (ys @ [stored_item s nm pr (Num (Fin (of_int (t + k))))]))"
proof -
  have f: "find_existing (Str s) (ys @ [stored_item s nm pr (Num (Fin (of_int t)))])
             = Inr (Some (length ys, stored_item s nm pr (Num (Fin (of_int t)))))"
    using ys(1) by (simp add: find_existing_append js_get_stored_item_id)
  have "\<bar>t + k\<bar> \<le> 2 ^ 53" using t by simp
  then have s: "number_add (Fin (of_int t)) (Fin (of_int k)) = Fin (of_int (t + k))"
    by (rule number_add_int)
  have a: "add_line (Arr (ys @ [stored_item s nm pr (Num (Fin (of_int t)))])) (Str s) name price
             (Fin (of_int k))
             = Inr (Arr (ys @ [stored_item s nm pr (Num (Fin (of_int (t + k))))]))"
    using add_line_stored_item [OF f, of name price "Fin (of_int k)"] t(1) s by simp
  have "getCart (snd (addItem (Str s) name price qty st))
          = getCart (snd (saveCart (Arr (ys @ [stored_item s nm pr (Num (Fin (of_int (t + k))))])) st))"
    using getCart_addItem [OF q g a] .
  also have "\<dots> = Inr (json_norm (Arr (ys @ [stored_item s nm pr (Num (Fin (of_int (t + k))))])))"
    using nf by (simp add: getCart_saveCart)
  finally show ?thesis
    using ys(2) pr by (simp add: json_norm_stored_item)
qed

lemma addItem_first_step:
  assumes nf: "\<not> full st"
    and g: "getCart st = Inr (Arr ys)"
    and ys: "find_existing (Str s) ys = Inr None" "map json_norm ys = ys"
    and c: "ToString name = Inr n" "ToNumber price = Inr p"
    and q: "effective_qty qty = Inr (Fin r)"
  shows "getCart (snd (addItem (Str s) name price qty st))
           = Inr (Arr (ys @ [stored_item s n (json_norm (Num (number_or p (Fin 0)))) (Num (Fin r))]))"
proof -
  have x: "\<not> truthy (existing_of None)" by (simp add: existing_of_def)
  have i: "ToString (Str s) = Inr s" by simp
  let ?x = "stored_item s n (Num (number_or p (Fin 0))) (Num (Fin r))"
  have a: "add_line (Arr ys) (Str s) name price (Fin r) = Inr (Arr (ys @ [?x]))"
    using add_line_push [OF ys(1) x new_item_converted [OF i c]] .
  have "getCart (snd (addItem (Str s) name price qty st)) = getCart (snd (saveCart (Arr (ys @ [?x])) st))"
    using getCart_addItem [OF q g a] .
  also have "\<dots> = Inr (json_norm (Arr (ys @ [?x])))"
    using nf by (simp add: getCart_saveCart)
  finally show ?thesis
    using ys(2) by (simp add: json_norm_stored_item)
qed

lemma sum_list_pos: "list_all (\<lambda>k. 0 < k) ks \<Longrightarrow> 0 \<le> sum_list (ks :: int list)"
  by (induction ks) auto

lemma addItems_last:
  assumes "\<not> full st"
    and "getCart st = Inr (Arr (ys @ [stored_item s nm pr (Num (Fin (of_int t)))]))"
    and "find_existing (Str s) ys = Inr None" and "map json_norm ys = ys"
    and "pr \<noteq> Undefined" and "json_norm pr = pr"
    and "0 < t"
    and "map (\<lambda>(n, p, q). effective_qty q) args = map (\<lambda>k. Inr (Fin (of_int k))) ks"
    and "list_all (\<lambda>k. 0 < k) ks"
    and "t + sum_list ks \<le> 2 ^ 53"
  shows "getCart (run_all (map (\<lambda>(n, p, q). AddItem (Str s) n p q) args) st)
           = Inr (Arr (ys @ [stored_item s nm pr (Num (Fin (of_int (t + sum_list ks))))]))"
  using assms
proof (induction args arbitrary: st t ks)
  case Nil
  then show ?case by simp
next
  case (Cons arg args)
  obtain n p q where arg: "arg = (n, p, q)" by (cases arg) auto
  obtain k ks' where ks: "ks = k # ks'"
    using Cons.prems(8) by (cases ks) auto
  have q: "effective_qty q = Inr (Fin (of_int k))"
    using Cons.prems(8) by (simp add: arg ks)
  have rest: "map (\<lambda>(n, p, q). effective_qty q) args = map (\<lambda>k. Inr (Fin (of_int k))) ks'"
    using Cons.prems(8) by (simp add: arg ks)
  have pos: "0 < k" "list_all (\<lambda>k. 0 < k) ks'"
    using Cons.prems(9) by (simp_all add: ks)
  have s0: "0 \<le> sum_list ks'" using pos(2) by (rule sum_list_pos)
  have b: "t + k \<le> 2 ^ 53" "(t + k) + sum_list ks' \<le> 2 ^ 53"
    using Cons.prems(10) s0 by (simp_all add: ks)
  let ?st = "snd (addItem (Str s) n p q st)"
  have g: "getCart ?st = Inr (Arr (ys @ [stored_item s nm pr (Num (Fin (of_int (t + k))))]))"
    using addItem_last_step [OF Cons.prems(1) Cons.prems(2) Cons.prems(3) Cons.prems(4)
        Cons.prems(5) Cons.prems(6) Cons.prems(7) pos(1) b(1) q] .
  have nf: "\<not> full ?st"
    using Cons.prems(1) by (simp add: full_addItem)
  have tpos: "0 < t + k"
    using pos(1) Cons.prems(7) by simp
  have "getCart (run_all (map (\<lambda>(n, p, q). AddItem (Str s) n p q) args) ?st)
       = Inr (Arr (ys @ [stored_item s nm pr (Num (Fin (of_int ((t + k) + sum_list ks'))))]))"
    using Cons.IH [OF nf g Cons.prems(3) Cons.prems(4) Cons.prems(5) Cons.prems(6) tpos rest pos(2) b(2)] .
  then show ?case
    by (simp add: arg ks add.assoc)
qed

lemma quantity_of_last:
  assumes "getCart st = Inr (Arr (ys @ [stored_item s nm pr t]))"
    and "find_existing (Str s) ys = Inr None"
  shows "quantity_of (Str s) st = Some t"
  using assms
  by (simp add: quantity_of_def find_existing_append js_get_stored_item_id js_get_stored_item_qty)

text \<open>
  Claim C4. Start from a stored cart of line items in which the search finds no item
  with the string id \<open>s\<close>, with room left in the storage, and call \<open>addItem\<close> with id \<open>s\<close>
  one or more times, the first call's name and price converting without a throw, and
  the quantity that each call works with, \<open>parseInt(qty, 10) || 1\<close>, being a positive whole
  number, their sum at most \<open>2 ^ 53\<close>. Then the quantity of the item with id \<open>s\<close> is the
  sum of these quantities.
\<close>

theorem addItem_same_id_sums_quantities:
  assumes "\<not> full st"
    and "getCart st = Inr (cart_of ls)"
    and "find_existing (Str s) (items_of ls) = Inr None"
    and "args \<noteq> []"
    and "ToString (fst (hd args)) = Inr n0" and "ToNumber (fst (snd (hd args))) = Inr p0"
    and "map (\<lambda>(n, p, q). effective_qty q) args = map (\<lambda>k. Inr (Fin (of_int k))) ks"
    and "list_all (\<lambda>k. 0 < k) ks"
    and "sum_list ks \<le> 2 ^ 53"
  shows "quantity_of (Str s) (run_all (map (\<lambda>(n, p, q). AddItem (Str s) n p q) args) st)
           = Some (Num (Fin (of_int (sum_list ks))))"
proof -
  obtain arg rest where args: "args = arg # rest"
    using assms(4) by (cases args) auto
  obtain n p q where arg: "arg = (n, p, q)" by (cases arg) auto
  obtain k ks' where ks: "ks = k # ks'"
    using assms(7) by (cases ks) (auto simp: args)
  have q: "effective_qty q = Inr (Fin (of_int k))"
    using assms(7) by (simp add: args arg ks)
  have rest: "map (\<lambda>(n, p, q). effective_qty q) rest = map (\<lambda>k. Inr (Fin (of_int k))) ks'"
    using assms(7) by (simp add: args arg ks)
  have pos: "0 < k" "list_all (\<lambda>k. 0 < k) ks'"
    using assms(8) by (simp_all add: ks)
  have b: "k + sum_list ks' \<le> 2 ^ 53"
    using assms(9) by (simp add: ks)
  have c: "ToString n = Inr n0" "ToNumber p = Inr p0"
    using assms(5) assms(6) by (simp_all add: args arg)
  let ?st = "snd (addItem (Str s) n p q st)"
  let ?pr = "json_norm (Num (number_or p0 (Fin 0)))"
  have g0: "getCart st = Inr (Arr (items_of ls))"
    using assms(2) by (simp add: cart_of_def)
  have g: "getCart ?st = Inr (Arr (items_of ls @ [stored_item s n0 ?pr (Num (Fin (of_int k)))]))"
    using addItem_first_step [OF assms(1) g0 assms(3) json_norm_items_of c q] .
  have nf: "\<not> full ?st"
    using assms(1) by (simp add: full_addItem)
  have pr: "?pr \<noteq> Undefined" "json_norm ?pr = ?pr"
    by (simp_all only: json_norm_not_Undefined json_norm_number_idem not_False_eq_True)
  have "getCart (run_all (map (\<lambda>(n, p, q). AddItem (Str s) n p q) rest) ?st)
       = Inr (Arr (items_of ls @ [stored_item s n0 ?pr (Num (Fin (of_int (k + sum_list ks'))))]))"
    using addItems_last [OF nf g assms(3) json_norm_items_of pr pos(1) rest pos(2) b] .
  then have "quantity_of (Str s) (run_all (map (\<lambda>(n, p, q). AddItem (Str s) n p q) rest) ?st)
          = Some (Num (Fin (of_int (k + sum_list ks'))))"
    using assms(3) by (rule quantity_of_last)
  then show ?thesis
    by (simp add: args arg ks)
qed

theorem addItem_same_id_sums_quantities_witness:
  "quantity_of (Str ''a'')
     (run_all [AddItem (Str ''a'') (Str ''A'') (Num (Fin 1)) (Num (Fin 2)),
               AddItem (Str ''a'') (Str ''A'') (Num (Fin 1)) (Str ''3''),
               AddItem (Str ''a'') (Str ''A'') (Num (Fin 1)) Undefined]
        (holding (cart_of [(''b'', ''B'', 2, 1)])))
     = Some (Num (Fin 6))"
proof -
  let ?st = "holding (cart_of [(''b'', ''B'', 2, 1)])"
  let ?args = "[(Str ''A'', Num (Fin 1), Num (Fin 2)), (Str ''A'', Num (Fin 1), Str ''3''),
                (Str ''A'', Num (Fin 1), Undefined)]"
  have nf: "\<not> full ?st"
    by (simp add: holding_def empty_state_def)
  have g: "getCart ?st = Inr (cart_of [(''b'', ''B'', 2, 1)])"
    by (simp add: holding_def getCart_def getCart_try_def getItem_def)
  have f: "find_existing (Str ''a'') (items_of [(''b'', ''B'', 2, 1)]) = Inr None"
    by code_simp
  have ne: "?args \<noteq> []" by simp
  have c: "ToString (fst (hd ?args)) = Inr ''A''" "ToNumber (fst (snd (hd ?args))) = Inr (Fin 1)"
    by (simp_all add: ToNumber_def)
  have e: "effective_qty (Num (Fin 2)) = Inr (Fin 2)" "effective_qty (Str ''3'') = Inr (Fin 3)"
    "effective_qty Undefined = Inr (Fin 1)"
    by code_simp+
  have m: "map (\<lambda>(n, p, q). effective_qty q) ?args = map (\<lambda>k. Inr (Fin (of_int k))) [2, 3, 1]"
    by (simp add: e)
  have pos: "list_all (\<lambda>k. 0 < k) [2, 3, 1 :: int]" by simp
  have b: "sum_list [2, 3, 1 :: int] \<le> 2 ^ 53" by simp
  show ?thesis
    using addItem_same_id_sums_quantities [OF nf g f ne c m pos b] by simp
qed

text \<open>
  A call with quantity 0 counts as 1: after \<open>addItem('a', 'A', 1, 0)\<close> on the empty cart
  the quantity is 1, and the sum of the arguments is 0.
\<close>

theorem addItem_zero_quantity_counts_one:
  "quantity_of (Str ''a'')
     (run_all [AddItem (Str ''a'') (Str ''A'') (Num (Fin 1)) (Num (Fin 0))] empty_state)
     = Some (Num (Fin 1))"
  by code_simp

text \<open>
  The quantity that a call works with is not always its argument: \<open>parseInt\<close> reads the
  argument's string, and the string of \<open>1e21\<close> is \<open>1e+21\<close>, so the call works with 1. Past
  \<open>2 ^ 53\<close> the sum rounds: \<open>2 ^ 53\<close> and then 1 leave \<open>2 ^ 53\<close>.
\<close>

lemma addItem_exponent_quantity_counts_one:
  "quantity_of (Str ''a'')
     (run_all [AddItem (Str ''a'') (Str ''A'') (Num (Fin 1)) (Num (Fin 1000000000000000000000))]
        empty_state)
     = Some (Num (Fin 1))"
  by code_simp

lemma addItem_sum_rounds_past_two_53:
  "quantity_of (Str ''a'')
     (run_all [AddItem (Str ''a'') (Str ''A'') (Num (Fin 1)) (Num (Fin 9007199254740992)),
               AddItem (Str ''a'') (Str ''A'') (Num (Fin 1)) (Num (Fin 1))]
        empty_state)
     = Some (Num (Fin 9007199254740992))"
  by code_simp

subsection \<open>One item per id\<close>

text \<open>
  Claim C5. A cart reached from the empty cart should hold each id once, a second add of
  an id raising the quantity of its item. \<open>addToCart(5, 'A', 1)\<close> called twice on the empty
  cart leaves two items with the id \<open>'5'\<close>: the id is stored as \<open>String(productId)\<close> and
  the search compares the stored string with the number by \<open>===\<close>, so it never finds it.
\<close>

theorem addToCart_number_id_twice:
  "cart_ids (run_all [AddToCart (Num (Fin 5)) (Str ''A'') (Num (Fin 1)),
                      AddToCart (Num (Fin 5)) (Str ''A'') (Num (Fin 1))] empty_state)
     = [Str ''5'', Str ''5'']"
  by code_simp

end
